theory Spec2Isabelle
  imports Complex_Main "HOL-Library.Word" "HOL-Library.Sublist"
begin

unbundle bit_operations_syntax

section \<open>Data of the image server\<close>

text \<open>
  The repository holds one server in two variants: \<^verbatim>\<open>src/index.ts\<close> re-encodes every
  upload as lossless AVIF, \<^verbatim>\<open>src/unnamed/part_000\<close> re-encodes it as PNG. The two files
  differ in the sharp pipeline, the file extension and the content type only, so the model
  takes the variant as a parameter. The model covers the two request handlers; the CORS
  and logging middleware and the start-up code (creating the images directory,
  \<^verbatim>\<open>Bun.serve\<close>) are outside it.

  Strings are lists of 8-bit characters. Both patterns of the server consist of ASCII
  characters, so a code unit outside this range would behave like any other character that
  a pattern does not mention.
\<close>

type_synonym byte = "8 word"
type_synonym buffer = "byte list"
type_synonym path = string

datatype format = Avif | Png

fun extension :: "format \<Rightarrow> string" where
  "extension Avif = ''avif''"
| "extension Png = ''png''"

fun content_type :: "format \<Rightarrow> string" where
  "content_type Avif = ''image/avif''"
| "content_type Png = ''image/png''"

text \<open>
  What \<^verbatim>\<open>await c.req.json()\<close> yields when the body parses, and what a property read on it
  yields (\<open>JUndefined\<close> for a property that is not there).
\<close>

datatype jsvalue =
    JUndefined
  | JNull
  | JBool bool
  | JNumber rat
  | JString string
  | JArray "jsvalue list"
  | JObject "(string \<times> jsvalue) list"

text \<open>The exceptions that can be thrown inside the \<^verbatim>\<open>try\<close> block of the upload handler.\<close>

datatype js_error =
    SyntaxError       \<comment> \<open>\<^verbatim>\<open>c.req.json()\<close>: the body is not JSON\<close>
  | TypeError         \<comment> \<open>destructuring \<^verbatim>\<open>null\<close>; \<^verbatim>\<open>data.replace\<close> is not a function\<close>
  | ConversionError   \<comment> \<open>the promise of \<^verbatim>\<open>sharp(...).toBuffer()\<close> rejects\<close>

text \<open>What \<^verbatim>\<open>readFileSync\<close> can throw: the usual error codes, and any other by its name.\<close>

datatype fs_error = ENOENT | EACCES | EISDIR | Errno string

text \<open>
  The three ways the handlers build a response: \<^verbatim>\<open>c.text(body, status)\<close>,
  \<^verbatim>\<open>c.json({ hash })\<close> (status 200) and \<^verbatim>\<open>new Response(body, { status, headers })\<close>.
\<close>

datatype response =
    Text string nat
  | Json_hash string
  | Response buffer nat "(string \<times> string) list"

fun status :: "response \<Rightarrow> nat" where
  "status (Text body code) = code"
| "status (Json_hash hash) = 200"
| "status (Response body code headers) = code"

text \<open>
  The libraries and the process environment the handlers call into: the working directory,
  the base64 decoder of \<^verbatim>\<open>Buffer.from(s, "base64")\<close> (it never throws on a string) and the
  sharp pipeline of the variant (\<open>None\<close> when its promise rejects).
\<close>

record env =
  cwd :: string
  from_base64 :: "string \<Rightarrow> buffer"
  sharp :: "format \<Rightarrow> buffer \<Rightarrow> buffer option"

text \<open>
  The state outside the handlers: what \<^verbatim>\<open>readFileSync\<close> finds at each path, the writes
  that \<^verbatim>\<open>Bun.write\<close> has been asked for and whose promise has not settled yet, and the
  errors printed by \<^verbatim>\<open>console.error\<close>.
\<close>

record world =
  files :: "path \<Rightarrow> fs_error + buffer"
  pending :: "(path \<times> buffer) list"
  console :: "js_error list"

section \<open>SHA-256 and its hexadecimal rendering\<close>

text \<open>
  \<^verbatim>\<open>crypto.createHash("sha256").update(buf).digest("hex")\<close>: SHA-256 as FIPS 180-4
  defines it, on 32-bit words, and the digest's 32 bytes written as lowercase hexadecimal.
  The round constants and the initial hash value are written in decimal.
\<close>

type_synonym w32 = "32 word"
type_synonym hstate = "w32 \<times> w32 \<times> w32 \<times> w32 \<times> w32 \<times> w32 \<times> w32 \<times> w32"

definition rotr :: "nat \<Rightarrow> w32 \<Rightarrow> w32" where
  "rotr n x = (drop_bit n x) OR (push_bit (32 - n) x)"

definition Ch :: "w32 \<Rightarrow> w32 \<Rightarrow> w32 \<Rightarrow> w32" where
  "Ch x y z = (x AND y) XOR (NOT x AND z)"

definition Maj :: "w32 \<Rightarrow> w32 \<Rightarrow> w32 \<Rightarrow> w32" where
  "Maj x y z = (x AND y) XOR (x AND z) XOR (y AND z)"

definition bsig0 :: "w32 \<Rightarrow> w32" where
  "bsig0 x = rotr 2 x XOR rotr 13 x XOR rotr 22 x"

definition bsig1 :: "w32 \<Rightarrow> w32" where
  "bsig1 x = rotr 6 x XOR rotr 11 x XOR rotr 25 x"

definition ssig0 :: "w32 \<Rightarrow> w32" where
  "ssig0 x = rotr 7 x XOR rotr 18 x XOR drop_bit 3 x"

definition ssig1 :: "w32 \<Rightarrow> w32" where
  "ssig1 x = rotr 17 x XOR rotr 19 x XOR drop_bit 10 x"

definition K256 :: "w32 list" where
  "K256 = [
     1116352408, 1899447441, 3049323471, 3921009573,
     961987163, 1508970993, 2453635748, 2870763221,
     3624381080, 310598401, 607225278, 1426881987,
     1925078388, 2162078206, 2614888103, 3248222580,
     3835390401, 4022224774, 264347078, 604807628,
     770255983, 1249150122, 1555081692, 1996064986,
     2554220882, 2821834349, 2952996808, 3210313671,
     3336571891, 3584528711, 113926993, 338241895,
     666307205, 773529912, 1294757372, 1396182291,
     1695183700, 1986661051, 2177026350, 2456956037,
     2730485921, 2820302411, 3259730800, 3345764771,
     3516065817, 3600352804, 4094571909, 275423344,
     430227734, 506948616, 659060556, 883997877,
     958139571, 1322822218, 1537002063, 1747873779,
     1955562222, 2024104815, 2227730452, 2361852424,
     2428436474, 2756734187, 3204031479, 3329325298]"

definition H256 :: hstate where
  "H256 = (1779033703, 3144134277, 1013904242, 2773480762,
           1359893119, 2600822924, 528734635, 1541459225)"

definition be32 :: "byte list \<Rightarrow> w32" where
  "be32 bs = foldl (\<lambda>acc b. push_bit 8 acc OR ucast b) 0 bs"

fun words_of :: "byte list \<Rightarrow> w32 list" where
  "words_of (a # b # c # d # rest) = be32 [a, b, c, d] # words_of rest"
| "words_of _ = []"

text \<open>
  The message schedule, newest word first while it grows: with \<open>W t\<close> the word being
  added, \<open>ws ! 1\<close> is \<open>W (t - 2)\<close>, \<open>ws ! 6\<close> is \<open>W (t - 7)\<close>, \<open>ws ! 14\<close> is
  \<open>W (t - 15)\<close> and \<open>ws ! 15\<close> is \<open>W (t - 16)\<close>.
\<close>

fun extend :: "nat \<Rightarrow> w32 list \<Rightarrow> w32 list" where
  "extend 0 ws = ws"
| "extend (Suc n) ws =
     extend n ((ssig1 (ws ! 1) + ws ! 6 + ssig0 (ws ! 14) + ws ! 15) # ws)"

definition schedule :: "byte list \<Rightarrow> w32 list" where
  "schedule block = rev (extend 48 (rev (words_of block)))"

fun round256 :: "hstate \<Rightarrow> w32 \<times> w32 \<Rightarrow> hstate" where
  "round256 (a, b, c, d, e, f, g, h) (k, w) =
     (let t1 = h + bsig1 e + Ch e f g + k + w;
          t2 = bsig0 a + Maj a b c
      in (t1 + t2, a, b, c, d + t1, e, f, g))"

fun add_state :: "hstate \<Rightarrow> hstate \<Rightarrow> hstate" where
  "add_state (a, b, c, d, e, f, g, h) (a', b', c', d', e', f', g', h') =
     (a + a', b + b', c + c', d + d', e + e', f + f', g + g', h + h')"

definition compress :: "hstate \<Rightarrow> byte list \<Rightarrow> hstate" where
  "compress hs block = add_state hs (foldl round256 hs (zip K256 (schedule block)))"

definition be_bytes :: "nat \<Rightarrow> nat \<Rightarrow> byte list" where
  "be_bytes n v = map (\<lambda>i. of_nat (v div 256 ^ (n - 1 - i))) [0..<n]"

definition pad :: "byte list \<Rightarrow> byte list" where
  "pad msg = msg @ [0x80] @ replicate ((119 - length msg mod 64) mod 64) 0
               @ be_bytes 8 ((8 * length msg) mod 2 ^ 64)"

fun blocks :: "nat \<Rightarrow> byte list \<Rightarrow> byte list list" where
  "blocks 0 bs = []"
| "blocks (Suc n) bs = take 64 bs # blocks n (drop 64 bs)"

definition w32_bytes :: "w32 \<Rightarrow> byte list" where
  "w32_bytes w = [ucast (drop_bit 24 w), ucast (drop_bit 16 w), ucast (drop_bit 8 w), ucast w]"

fun state_bytes :: "hstate \<Rightarrow> byte list" where
  "state_bytes (a, b, c, d, e, f, g, h) = concat (map w32_bytes [a, b, c, d, e, f, g, h])"

definition sha256 :: "buffer \<Rightarrow> buffer" where
  "sha256 msg =
     (let p = pad msg in state_bytes (foldl compress H256 (blocks (length p div 64) p)))"

definition hex_digit :: "nat \<Rightarrow> char" where
  "hex_digit n = ''0123456789abcdef'' ! (n mod 16)"

definition hex_byte :: "byte \<Rightarrow> string" where
  "hex_byte b = [hex_digit (unat b div 16), hex_digit (unat b mod 16)]"

definition sha256_hex :: "buffer \<Rightarrow> string" where
  "sha256_hex buf = concat (map hex_byte (sha256 buf))"

section \<open>The upload handler\<close>

text \<open>JavaScript's truthiness, which \<^verbatim>\<open>if (!data)\<close> tests.\<close>

fun truthy :: "jsvalue \<Rightarrow> bool" where
  "truthy JUndefined = False"
| "truthy JNull = False"
| "truthy (JBool b) = b"
| "truthy (JNumber n) = (n \<noteq> 0)"
| "truthy (JString s) = (s \<noteq> [])"
| "truthy (JArray xs) = True"
| "truthy (JObject kvs) = True"

text \<open>
  \<^verbatim>\<open>const { data } = ...\<close>: destructuring \<^verbatim>\<open>null\<close> throws; an object gives its own
  property \<^verbatim>\<open>data\<close> (of a key written twice in the JSON text, the last one); every other
  JSON value has no such property.
\<close>

fun destructure_data :: "jsvalue \<Rightarrow> js_error + jsvalue" where
  "destructure_data JUndefined = Inl TypeError"
| "destructure_data JNull = Inl TypeError"
| "destructure_data (JObject kvs) =
     Inr (case map_of (rev kvs) ''data'' of None \<Rightarrow> JUndefined | Some v \<Rightarrow> v)"
| "destructure_data v = Inr JUndefined"

text \<open>
  \<^verbatim>\<open>data.replace(/^data:image\/png;base64,/, "")\<close>. The pattern is a literal anchored at
  the start of the string, so it matches at most once, at position 0; a value that is not
  a string has no \<^verbatim>\<open>replace\<close> method and the call throws.
\<close>

definition data_uri_prefix :: string where
  "data_uri_prefix = ''data:image/png;base64,''"

fun match_literal :: "string \<Rightarrow> string \<Rightarrow> string option" where
  "match_literal [] s = Some s"
| "match_literal (p # ps) [] = None"
| "match_literal (p # ps) (c # cs) = (if p = c then match_literal ps cs else None)"

definition strip_data_uri :: "string \<Rightarrow> string" where
  "strip_data_uri s =
     (case match_literal data_uri_prefix s of Some rest \<Rightarrow> rest | None \<Rightarrow> s)"

fun data_replace :: "jsvalue \<Rightarrow> js_error + string" where
  "data_replace (JString s) = Inr (strip_data_uri s)"
| "data_replace v = Inl TypeError"

definition MAX_FILE_SIZE :: nat where
  "MAX_FILE_SIZE = 10 * 1024 * 1024"

definition imagesDir :: "env \<Rightarrow> path" where
  "imagesDir e = cwd e @ ''/images''"

text \<open>
  \<^verbatim>\<open>Bun.write(filePath, buffer)\<close> returns a promise. The handler does not await it and
  attaches no handler to it: the call only adds the write to the outstanding ones.
\<close>

definition Bun_write :: "path \<Rightarrow> buffer \<Rightarrow> world \<Rightarrow> world" where
  "Bun_write filePath buf w = w\<lparr>pending := pending w @ [(filePath, buf)]\<rparr>"

text \<open>
  The body of the \<^verbatim>\<open>try\<close> block, statement by statement: \<open>Inl\<close> is an exception on
  its way to the \<^verbatim>\<open>catch\<close>, \<open>Inr\<close> a \<^verbatim>\<open>return\<close>. The argument \<open>body\<close> is the
  request body as \<^verbatim>\<open>c.req.json()\<close> parses it, \<open>None\<close> when it is not JSON.
\<close>

definition upload_try :: "format \<Rightarrow> env \<Rightarrow> jsvalue option \<Rightarrow> world \<Rightarrow> (js_error + response) \<times> world" where
  "upload_try f e body w =
     (case body of
        None \<Rightarrow> (Inl SyntaxError, w)
      | Some json \<Rightarrow>
         (case destructure_data json of
            Inl err \<Rightarrow> (Inl err, w)
          | Inr data \<Rightarrow>
             if \<not> truthy data then (Inr (Text ''Missing image data'' 400), w)
             else
              (case data_replace data of
                 Inl err \<Rightarrow> (Inl err, w)
               | Inr base64Image \<Rightarrow>
                  let imageBuffer = from_base64 e base64Image in
                  if length imageBuffer > MAX_FILE_SIZE
                  then (Inr (Text ''Image file too large, maximum allowed size is 10MB'' 400), w)
                  else
                   (case sharp e f imageBuffer of
                      None \<Rightarrow> (Inl ConversionError, w)
                    | Some outBuffer \<Rightarrow>
                       let hash = sha256_hex outBuffer;
                           filename = hash @ ''.'' @ extension f;
                           filePath = imagesDir e @ ''/'' @ filename
                       in (Inr (Json_hash hash), Bun_write filePath outBuffer w)))))"

text \<open>\<^verbatim>\<open>app.post("/upload", ...)\<close>: the \<^verbatim>\<open>try\<close> block and its \<^verbatim>\<open>catch\<close>.\<close>

definition post_upload :: "format \<Rightarrow> env \<Rightarrow> jsvalue option \<Rightarrow> world \<Rightarrow> response \<times> world" where
  "post_upload f e body w =
     (case upload_try f e body w of
        (Inr r, w') \<Rightarrow> (r, w')
      | (Inl err, w') \<Rightarrow>
          (Text ''Invalid JSON payload or conversion error'' 400,
           w'\<lparr>console := console w' @ [err]\<rparr>))"

text \<open>
  The runtime's part of \<^verbatim>\<open>Bun.write\<close>: some time after the call the oldest outstanding
  write settles. When it succeeds the file holds the buffer; when it fails (here: before
  anything was written) the promise rejects, which no code of the server observes.
\<close>

definition write_settles :: "bool \<Rightarrow> world \<Rightarrow> world" where
  "write_settles ok w =
     (case pending w of
        [] \<Rightarrow> w
      | (filePath, buf) # rest \<Rightarrow>
          w\<lparr>files := (if ok then (files w)(filePath := Inr buf) else files w),
            pending := rest\<rparr>)"

text \<open>
  Before a write settles the runtime opens its file, which empties a file that is already
  there: from then until the write settles a reader finds the file with no bytes in it.
\<close>

definition write_starts :: "world \<Rightarrow> world" where
  "write_starts w =
     (case pending w of
        [] \<Rightarrow> w
      | (filePath, buf) # rest \<Rightarrow> w\<lparr>files := (files w)(filePath := Inr [])\<rparr>)"

section \<open>The download handler\<close>

text \<open>The character class \<^verbatim>\<open>[0-9a-f]\<close>.\<close>

definition is_hex :: "char \<Rightarrow> bool" where
  "is_hex c = (c \<in> set ''0123456789abcdef'')"

text \<open>
  \<^verbatim>\<open>file.match(/^([0-9a-f]+)\.avif$/)\<close> (\<^verbatim>\<open>\.png$\<close> in the PNG variant), giving the
  capture group \<^verbatim>\<open>match[1]\<close>. The greedy \<^verbatim>\<open>[0-9a-f]+\<close> takes the longest run of
  hexadecimal characters; giving characters back cannot help, since what must follow is a
  dot, which is not in the class. Without the \<^verbatim>\<open>m\<close> flag \<^verbatim>\<open>$\<close> is the end of the string.
\<close>

definition file_match :: "format \<Rightarrow> string \<Rightarrow> string option" where
  "file_match f file =
     (let hash = takeWhile is_hex file;
          rest = dropWhile is_hex file
      in if hash \<noteq> [] \<and> rest = ''.'' @ extension f then Some hash else None)"

definition readFileSync :: "world \<Rightarrow> path \<Rightarrow> fs_error + buffer" where
  "readFileSync w filePath = files w filePath"

text \<open>\<^verbatim>\<open>app.get("/:file", ...)\<close>; \<open>file\<close> is \<^verbatim>\<open>c.req.param("file")\<close>.\<close>

definition get_file :: "format \<Rightarrow> env \<Rightarrow> string \<Rightarrow> world \<Rightarrow> response" where
  "get_file f e file w =
     (case file_match f file of
        None \<Rightarrow> Text ''Invalid image URL'' 400
      | Some hash \<Rightarrow>
          let filePath = imagesDir e @ ''/'' @ hash @ ''.'' @ extension f in
          (case readFileSync w filePath of
             Inr imageBuffer \<Rightarrow> Response imageBuffer 200 [(''Content-Type'', content_type f)]
           | Inl err \<Rightarrow> Text ''Image not found'' 404))"

section \<open>The key format in the words of the specification\<close>

text \<open>
  One or more lowercase hexadecimal characters, a literal dot, then the server's fixed
  extension, and nothing else.
\<close>

definition key_format :: "string \<Rightarrow> string \<Rightarrow> bool" where
  "key_format ext s = (\<exists>h. h \<noteq> [] \<and> list_all is_hex h \<and> s = h @ ''.'' @ ext)"

section \<open>Example environment\<close>

text \<open>
  A concrete environment and an empty store, for evaluating the handlers on examples: the
  decoder stands in for base64 by taking each character's code, the pipeline rejects the
  empty buffer and passes every other one through.
\<close>

definition example_env :: env where
  "example_env = \<lparr>cwd = ''/srv'', from_base64 = map of_char,
                  sharp = (\<lambda>f buf. if buf = [] then None else Some buf)\<rparr>"

definition empty_world :: world where
  "empty_world = \<lparr>files = (\<lambda>p. Inl ENOENT), pending = [], console = []\<rparr>"

section \<open>Facts about the key pattern\<close>

lemma dot_not_hex: "\<not> is_hex CHR ''.''"
  by (simp add: is_hex_def)

lemma file_match_SomeD:
  "file_match f s = Some h \<Longrightarrow> h \<noteq> [] \<and> list_all is_hex h \<and> s = h @ ''.'' @ extension f"
proof -
  assume m: "file_match f s = Some h"
  then have h: "h = takeWhile is_hex s" and ne: "h \<noteq> []"
    and r: "dropWhile is_hex s = ''.'' @ extension f"
    by (auto simp: file_match_def Let_def split: if_splits)
  have "s = takeWhile is_hex s @ dropWhile is_hex s" by simp
  with h r have "s = h @ ''.'' @ extension f" by simp
  moreover have "list_all is_hex h"
    unfolding h list_all_iff by (auto dest: set_takeWhileD)
  ultimately show ?thesis using ne by simp
qed

lemma file_match_hex:
  assumes "h \<noteq> []" "list_all is_hex h"
  shows "file_match f (h @ ''.'' @ extension f) = Some h"
proof -
  have all: "\<And>x. x \<in> set h \<Longrightarrow> is_hex x"
    using assms(2) by (simp add: list_all_iff)
  have t: "takeWhile is_hex (h @ ''.'' @ extension f) = h"
    using all by (simp add: takeWhile_append2 dot_not_hex)
  have d: "dropWhile is_hex (h @ ''.'' @ extension f) = ''.'' @ extension f"
    using all by (simp add: dropWhile_append2 dot_not_hex)
  show ?thesis
    unfolding file_match_def Let_def t d using assms(1) by simp
qed

lemma file_match_iff: "(file_match f s \<noteq> None) = key_format (extension f) s"
proof
  assume "file_match f s \<noteq> None"
  then obtain h where "file_match f s = Some h" by auto
  from file_match_SomeD [OF this] show "key_format (extension f) s"
    unfolding key_format_def by blast
next
  assume "key_format (extension f) s"
  then obtain h where "h \<noteq> []" "list_all is_hex h" "s = h @ ''.'' @ extension f"
    unfolding key_format_def by blast
  then show "file_match f s \<noteq> None"
    using file_match_hex [of h f] by simp
qed

section \<open>Facts about the digest\<close>

lemma length_state_bytes: "length (state_bytes hs) = 32"
  by (cases hs rule: state_bytes.cases) (simp add: w32_bytes_def)

lemma length_sha256: "length (sha256 buf) = 32"
  by (simp add: sha256_def Let_def length_state_bytes)

lemma length_hex_bytes: "length (concat (map hex_byte bs)) = 2 * length bs"
  by (induction bs) (simp_all add: hex_byte_def)

lemma length_sha256_hex: "length (sha256_hex buf) = 64"
  by (simp add: sha256_hex_def length_hex_bytes length_sha256)

lemma is_hex_hex_digit: "is_hex (hex_digit n)"
proof -
  have "n mod 16 < length ''0123456789abcdef''" by simp
  then have "''0123456789abcdef'' ! (n mod 16) \<in> set ''0123456789abcdef''"
    by (rule nth_mem)
  then show ?thesis
    unfolding is_hex_def hex_digit_def .
qed

lemma is_hex_hex_bytes: "list_all is_hex (concat (map hex_byte bs))"
  by (induction bs) (simp_all add: hex_byte_def is_hex_hex_digit)

lemma is_hex_sha256_hex: "list_all is_hex (sha256_hex buf)"
  by (simp add: sha256_hex_def is_hex_hex_bytes)

lemma sha256_hex_nonempty: "sha256_hex buf \<noteq> []"
  using length_sha256_hex [of buf] by auto

section \<open>SHA-256 on the test messages of the standard\<close>













section \<open>The download handler: claims\<close>


lemma get_file_valid:
  "file_match f s = Some h \<Longrightarrow>
   get_file f e s w =
     (case files w (imagesDir e @ ''/'' @ s) of
        Inr buf \<Rightarrow> Response buf 200 [(''Content-Type'', content_type f)]
      | Inl err \<Rightarrow> Text ''Image not found'' 404)"
  by (frule file_match_SomeD) (simp add: get_file_def readFileSync_def)





text \<open>
  Claim C8. A key of the right format whose file cannot be read (it is not there, or
  reading it fails for another reason) is answered with the text "Image not found" and
  status 404, not the 400 of a malformed key; the answer is the same whatever the error of
  the file system was.
\<close>

theorem unreadable_key_not_found:
  "key_format (extension f) s \<Longrightarrow> files w (imagesDir e @ ''/'' @ s) = Inl err \<Longrightarrow>
   get_file f e s w = Text ''Image not found'' 404 \<and>
   status (get_file f e s w) = 404 \<and>
   get_file f e s w \<noteq> Text ''Invalid image URL'' 400"
proof -
  assume k: "key_format (extension f) s" and r: "files w (imagesDir e @ ''/'' @ s) = Inl err"
  from k obtain h where "file_match f s = Some h"
    using file_match_iff [of f s] by auto
  from get_file_valid [OF this, of e w] r show ?thesis by simp
qed

theorem unreadable_key_not_found_witness:
  "key_format (extension Png) ''00ff.png'' \<and>
   get_file Png example_env ''00ff.png'' empty_world = Text ''Image not found'' 404 \<and>
   get_file Png example_env ''00ff.png''
     (empty_world\<lparr>files := (files empty_world)(''/srv/images/00ff.png'' := Inl EACCES)\<rparr>)
     = Text ''Image not found'' 404 \<and>
   get_file Png example_env ''00ff.png''
     (empty_world\<lparr>files := (files empty_world)(''/srv/images/00ff.png'' := Inl (Errno ''EIO''))\<rparr>)
     = Text ''Image not found'' 404"
proof -
  have "file_match Png ''00ff.png'' = Some ''00ff''"
    by (simp add: file_match_def is_hex_def)
  then have k: "key_format (extension Png) ''00ff.png''"
    using file_match_iff [of Png "''00ff.png''"] by simp
  show ?thesis
    using k
      unreadable_key_not_found [OF k, of empty_world example_env ENOENT]
      unreadable_key_not_found [OF k,
        of "empty_world\<lparr>files := (files empty_world)(''/srv/images/00ff.png'' := Inl EACCES)\<rparr>"
           example_env EACCES]
      unreadable_key_not_found [OF k,
        of "empty_world\<lparr>files := (files empty_world)(''/srv/images/00ff.png'' := Inl (Errno ''EIO''))\<rparr>"
           example_env "Errno ''EIO''"]
    by (simp add: imagesDir_def example_env_def empty_world_def)
qed

text \<open>
  Claim C10. The pattern does not fix the number of hexadecimal characters: every key made
  of one or more of them and the extension passes, and the answer is then decided by
  reading the file of that name in the images directory (404 when it cannot be read), although
  every digest the upload handler gives out has exactly 64 characters.
\<close>

theorem short_key_reaches_filesystem:
  "h \<noteq> [] \<Longrightarrow> list_all is_hex h \<Longrightarrow>
   file_match f (h @ ''.'' @ extension f) = Some h \<and>
   get_file f e (h @ ''.'' @ extension f) w =
     (case readFileSync w (imagesDir e @ ''/'' @ h @ ''.'' @ extension f) of
        Inr buf \<Rightarrow> Response buf 200 [(''Content-Type'', content_type f)]
      | Inl err \<Rightarrow> Text ''Image not found'' 404) \<and>
   length (sha256_hex buf) = 64"
proof -
  assume "h \<noteq> []" "list_all is_hex h"
  then have m: "file_match f (h @ ''.'' @ extension f) = Some h"
    by (rule file_match_hex)
  from get_file_valid [OF m, of e w] m show ?thesis
    by (simp add: readFileSync_def length_sha256_hex)
qed

theorem short_key_reaches_filesystem_witness:
  "file_match Avif ''a.avif'' = Some ''a'' \<and>
   get_file Avif example_env ''a.avif'' empty_world = Text ''Image not found'' 404 \<and>
   get_file Avif example_env ''a.avif''
     (empty_world\<lparr>files := (files empty_world)(''/srv/images/a.avif'' := Inr [1, 2, 3])\<rparr>)
     = Response [1, 2, 3] 200 [(''Content-Type'', ''image/avif'')] \<and>
   length ''a'' \<noteq> length (sha256_hex [])"
proof -
  have h: "''a'' \<noteq> []" "list_all is_hex ''a''"
    by (simp_all add: is_hex_def)
  show ?thesis
    using short_key_reaches_filesystem [OF h, of Avif example_env empty_world "[]"]
      short_key_reaches_filesystem [OF h, of Avif example_env
        "empty_world\<lparr>files := (files empty_world)(''/srv/images/a.avif'' := Inr [1, 2, 3])\<rparr>" "[]"]
    by (simp add: readFileSync_def imagesDir_def example_env_def empty_world_def)
qed

section \<open>Facts about the upload handler\<close>

lemma MAX_FILE_SIZE_pos: "0 < MAX_FILE_SIZE"
  by (simp add: MAX_FILE_SIZE_def)





lemma strip_data_uri_first: "c \<noteq> CHR ''d'' \<Longrightarrow> strip_data_uri (c # cs) = c # cs"
  by (simp add: strip_data_uri_def data_uri_prefix_def)

text \<open>What the handler does once \<^verbatim>\<open>data\<close> is a non-empty string.\<close>

lemma post_upload_string:
  assumes "destructure_data json = Inr (JString s)" "s \<noteq> []"
  shows "post_upload f e (Some json) w =
     (let imageBuffer = from_base64 e (strip_data_uri s) in
      if length imageBuffer > MAX_FILE_SIZE
      then (Text ''Image file too large, maximum allowed size is 10MB'' 400, w)
      else
       (case sharp e f imageBuffer of
          None \<Rightarrow> (Text ''Invalid JSON payload or conversion error'' 400,
                   w\<lparr>console := console w @ [ConversionError]\<rparr>)
        | Some outBuffer \<Rightarrow>
            (Json_hash (sha256_hex outBuffer),
             Bun_write (imagesDir e @ ''/'' @ sha256_hex outBuffer @ ''.'' @ extension f)
               outBuffer w)))"
  using assms
  by (simp add: post_upload_def upload_try_def Let_def split: option.splits)

lemma data_replace_Inr: "data_replace d = Inr b \<Longrightarrow> \<exists>s. d = JString s \<and> b = strip_data_uri s"
  by (cases d) simp_all

text \<open>The only way to the \<^verbatim>\<open>c.json({ hash })\<close> answer.\<close>

lemma post_upload_success:
  assumes "post_upload f e body w = (Json_hash h, w')"
  shows "\<exists>json s outBuffer.
     body = Some json \<and> destructure_data json = Inr (JString s) \<and> s \<noteq> [] \<and>
     length (from_base64 e (strip_data_uri s)) \<le> MAX_FILE_SIZE \<and>
     sharp e f (from_base64 e (strip_data_uri s)) = Some outBuffer \<and>
     h = sha256_hex outBuffer \<and>
     w' = Bun_write (imagesDir e @ ''/'' @ h @ ''.'' @ extension f) outBuffer w"
proof (cases body)
  case None
  with assms show ?thesis
    by (simp add: post_upload_def upload_try_def)
next
  case (Some json)
  show ?thesis
  proof (cases "destructure_data json")
    case (Inl err)
    with Some assms show ?thesis
      by (simp add: post_upload_def upload_try_def)
  next
    case (Inr d)
    show ?thesis
    proof (cases "truthy d")
      case False
      with Some Inr assms show ?thesis
        by (simp add: post_upload_def upload_try_def)
    next
      case True
      show ?thesis
      proof (cases "data_replace d")
        case (Inl err)
        with Some Inr True assms show ?thesis
          by (simp add: post_upload_def upload_try_def)
      next
        case r: (Inr b)
        then obtain s where d: "d = JString s"
          using data_replace_Inr by blast
        with True have ne: "s \<noteq> []" by simp
        from Inr d have dd: "destructure_data json = Inr (JString s)" by simp
        from assms Some post_upload_string [OF dd ne, of f e w] show ?thesis
          using dd ne
          by (auto simp: Let_def split: if_splits option.splits)
      qed
    qed
  qed
qed

text \<open>Every other answer has status 400 and leaves the store and the outstanding writes alone.\<close>

lemma post_upload_failure:
  assumes "post_upload f e body w = (r, w')" "\<forall>h. r \<noteq> Json_hash h"
  shows "status r = 400 \<and> files w' = files w \<and> pending w' = pending w \<and>
         (w' = w \<or> (\<exists>err. w' = w\<lparr>console := console w @ [err]\<rparr>))"
  using assms
  by (auto simp: post_upload_def upload_try_def Let_def
      split: option.splits sum.splits if_splits)

section \<open>The upload handler: claims\<close>

text \<open>
  Claim C2. When \<^verbatim>\<open>data\<close> is a non-empty string whose decoded buffer has exactly
  \<open>MAX_FILE_SIZE\<close> = 10 * 1024 * 1024 bytes, the size check lets it through: the answer
  is the one the sharp pipeline and the steps after it produce. When the buffer has
  \<open>MAX_FILE_SIZE + 1\<close> bytes or more the answer is the too-large text with status 400,
  the state is untouched, and this is so for every sharp pipeline: the pipeline is not
  consulted.
\<close>

theorem size_check_boundary:
  assumes "destructure_data json = Inr (JString s)" "s \<noteq> []"
    and "imageBuffer = from_base64 e (strip_data_uri s)"
  shows "MAX_FILE_SIZE = 10485760 \<and>
    (length imageBuffer = MAX_FILE_SIZE \<longrightarrow>
       post_upload f e (Some json) w =
         (case sharp e f imageBuffer of
            None \<Rightarrow> (Text ''Invalid JSON payload or conversion error'' 400,
                     w\<lparr>console := console w @ [ConversionError]\<rparr>)
          | Some outBuffer \<Rightarrow>
              (Json_hash (sha256_hex outBuffer),
               Bun_write (imagesDir e @ ''/'' @ sha256_hex outBuffer @ ''.'' @ extension f)
                 outBuffer w))) \<and>
    (length imageBuffer \<ge> MAX_FILE_SIZE + 1 \<longrightarrow>
       (\<forall>pipeline. post_upload f (e\<lparr>sharp := pipeline\<rparr>) (Some json) w =
          (Text ''Image file too large, maximum allowed size is 10MB'' 400, w)))"
proof -
  have "MAX_FILE_SIZE = 10485760"
    by (simp add: MAX_FILE_SIZE_def)
  moreover have "length imageBuffer = MAX_FILE_SIZE \<longrightarrow>
       post_upload f e (Some json) w =
         (case sharp e f imageBuffer of
            None \<Rightarrow> (Text ''Invalid JSON payload or conversion error'' 400,
                     w\<lparr>console := console w @ [ConversionError]\<rparr>)
          | Some outBuffer \<Rightarrow>
              (Json_hash (sha256_hex outBuffer),
               Bun_write (imagesDir e @ ''/'' @ sha256_hex outBuffer @ ''.'' @ extension f)
                 outBuffer w))"
    using post_upload_string [OF assms(1,2), of f e w] assms(3)
    by (simp add: Let_def)
  moreover have "length imageBuffer \<ge> MAX_FILE_SIZE + 1 \<longrightarrow>
       (\<forall>pipeline. post_upload f (e\<lparr>sharp := pipeline\<rparr>) (Some json) w =
          (Text ''Image file too large, maximum allowed size is 10MB'' 400, w))"
  proof (intro impI allI)
    fix pipeline
    assume "length imageBuffer \<ge> MAX_FILE_SIZE + 1"
    then show "post_upload f (e\<lparr>sharp := pipeline\<rparr>) (Some json) w =
          (Text ''Image file too large, maximum allowed size is 10MB'' 400, w)"
      using post_upload_string [OF assms(1,2), of f "e\<lparr>sharp := pipeline\<rparr>" w] assms(3)
      by (simp add: Let_def)
  qed
  ultimately show ?thesis by blast
qed

text \<open>
  The example: the string of \<open>MAX_FILE_SIZE\<close> letters A decodes, in the example
  environment, to a buffer of that many bytes and is passed on; one letter more is refused.
\<close>

theorem size_check_boundary_witness:
  "length (from_base64 example_env (strip_data_uri (replicate MAX_FILE_SIZE CHR ''A'')))
     = MAX_FILE_SIZE \<and>
   fst (post_upload Avif example_env
      (Some (JObject [(''data'', JString (replicate MAX_FILE_SIZE CHR ''A''))])) empty_world)
     = Json_hash (sha256_hex (replicate MAX_FILE_SIZE 65)) \<and>
   length (from_base64 example_env (strip_data_uri (replicate (Suc MAX_FILE_SIZE) CHR ''A'')))
     = MAX_FILE_SIZE + 1 \<and>
   (\<forall>pipeline. post_upload Avif (example_env\<lparr>sharp := pipeline\<rparr>)
      (Some (JObject [(''data'', JString (replicate (Suc MAX_FILE_SIZE) CHR ''A''))])) empty_world
     = (Text ''Image file too large, maximum allowed size is 10MB'' 400, empty_world))"
proof -
  obtain n where n: "MAX_FILE_SIZE = Suc n"
    using MAX_FILE_SIZE_pos by (cases MAX_FILE_SIZE) auto
  have s1: "strip_data_uri (replicate MAX_FILE_SIZE CHR ''A'') = replicate MAX_FILE_SIZE CHR ''A''"
    unfolding n replicate_Suc by (rule strip_data_uri_first) simp
  have s2: "strip_data_uri (replicate (Suc MAX_FILE_SIZE) CHR ''A'')
      = replicate (Suc MAX_FILE_SIZE) CHR ''A''"
    unfolding replicate_Suc by (rule strip_data_uri_first) simp
  have ne: "replicate MAX_FILE_SIZE CHR ''A'' \<noteq> []"
    "replicate (Suc MAX_FILE_SIZE) CHR ''A'' \<noteq> []"
    using MAX_FILE_SIZE_pos by simp_all
  have d1: "destructure_data (JObject [(''data'', JString (replicate MAX_FILE_SIZE CHR ''A''))])
      = Inr (JString (replicate MAX_FILE_SIZE CHR ''A''))"
    and d2: "destructure_data (JObject [(''data'', JString (replicate (Suc MAX_FILE_SIZE) CHR ''A''))])
      = Inr (JString (replicate (Suc MAX_FILE_SIZE) CHR ''A''))"
    by simp_all
  have b1: "from_base64 example_env (strip_data_uri (replicate MAX_FILE_SIZE CHR ''A''))
      = replicate MAX_FILE_SIZE 65"
    unfolding s1 by (simp add: example_env_def)
  have b2: "from_base64 example_env (strip_data_uri (replicate (Suc MAX_FILE_SIZE) CHR ''A''))
      = replicate (Suc MAX_FILE_SIZE) 65"
    unfolding s2 by (simp add: example_env_def)
  have p: "sharp example_env Avif (replicate MAX_FILE_SIZE 65) = Some (replicate MAX_FILE_SIZE 65)"
    using MAX_FILE_SIZE_pos by (simp add: example_env_def)
  have l1: "length (replicate MAX_FILE_SIZE (65 :: byte)) = MAX_FILE_SIZE"
    and l2: "length (replicate (Suc MAX_FILE_SIZE) (65 :: byte)) \<ge> MAX_FILE_SIZE + 1"
    by simp_all
  from size_check_boundary [OF d1 ne(1) b1 [symmetric], of Avif empty_world] l1 p
  have a: "fst (post_upload Avif example_env
      (Some (JObject [(''data'', JString (replicate MAX_FILE_SIZE CHR ''A''))])) empty_world)
     = Json_hash (sha256_hex (replicate MAX_FILE_SIZE 65))"
    by simp
  from size_check_boundary [OF d2 ne(2) b2 [symmetric], of Avif empty_world] l2
  have b: "\<forall>pipeline. post_upload Avif (example_env\<lparr>sharp := pipeline\<rparr>)
      (Some (JObject [(''data'', JString (replicate (Suc MAX_FILE_SIZE) CHR ''A''))])) empty_world
     = (Text ''Image file too large, maximum allowed size is 10MB'' 400, empty_world)"
    by blast
  have c1: "length (from_base64 example_env (strip_data_uri (replicate MAX_FILE_SIZE CHR ''A'')))
     = MAX_FILE_SIZE"
    unfolding b1 by simp
  have c2: "length (from_base64 example_env
      (strip_data_uri (replicate (Suc MAX_FILE_SIZE) CHR ''A''))) = MAX_FILE_SIZE + 1"
    unfolding b2 by simp
  show ?thesis
    using c1 a c2 b by blast
qed






text \<open>The failures that happen inside the \<^verbatim>\<open>try\<close> block, one by one.\<close>

lemma post_upload_malformed:
  "post_upload f e None w =
     (Text ''Invalid JSON payload or conversion error'' 400,
      w\<lparr>console := console w @ [SyntaxError]\<rparr>)"
  by (simp add: post_upload_def upload_try_def)

lemma post_upload_destructure_throws:
  "destructure_data json = Inl err \<Longrightarrow>
   post_upload f e (Some json) w =
     (Text ''Invalid JSON payload or conversion error'' 400,
      w\<lparr>console := console w @ [err]\<rparr>)"
  by (simp add: post_upload_def upload_try_def)

lemma post_upload_missing:
  "destructure_data json = Inr d \<Longrightarrow> \<not> truthy d \<Longrightarrow>
   post_upload f e (Some json) w = (Text ''Missing image data'' 400, w)"
  by (simp add: post_upload_def upload_try_def)

lemma post_upload_not_string:
  "destructure_data json = Inr d \<Longrightarrow> truthy d \<Longrightarrow> data_replace d = Inl err \<Longrightarrow>
   post_upload f e (Some json) w =
     (Text ''Invalid JSON payload or conversion error'' 400,
      w\<lparr>console := console w @ [err]\<rparr>)"
  by (simp add: post_upload_def upload_try_def)

lemma post_upload_too_large:
  "destructure_data json = Inr (JString s) \<Longrightarrow> s \<noteq> [] \<Longrightarrow>
   length (from_base64 e (strip_data_uri s)) > MAX_FILE_SIZE \<Longrightarrow>
   post_upload f e (Some json) w =
     (Text ''Image file too large, maximum allowed size is 10MB'' 400, w)"
  by (simp add: post_upload_string Let_def)

lemma post_upload_conversion_fails:
  "destructure_data json = Inr (JString s) \<Longrightarrow> s \<noteq> [] \<Longrightarrow>
   length (from_base64 e (strip_data_uri s)) \<le> MAX_FILE_SIZE \<Longrightarrow>
   sharp e f (from_base64 e (strip_data_uri s)) = None \<Longrightarrow>
   post_upload f e (Some json) w =
     (Text ''Invalid JSON payload or conversion error'' 400,
      w\<lparr>console := console w @ [ConversionError]\<rparr>)"
  by (simp add: post_upload_string Let_def)

lemma files_post_upload: "files (snd (post_upload f e body w)) = files w"
proof (cases "\<exists>h. fst (post_upload f e body w) = Json_hash h")
  case True
  then obtain h where "post_upload f e body w = (Json_hash h, snd (post_upload f e body w))"
    by (metis prod.collapse)
  from post_upload_success [OF this] show ?thesis
    by (auto simp: Bun_write_def)
next
  case False
  then have "\<forall>h. fst (post_upload f e body w) \<noteq> Json_hash h" by blast
  from post_upload_failure [OF prod.collapse [symmetric] this] show ?thesis by blast
qed

lemma post_upload_accepts:
  assumes "destructure_data json = Inr (JString s)" "s \<noteq> []"
    and "length (from_base64 e (strip_data_uri s)) \<le> MAX_FILE_SIZE"
    and "sharp e f (from_base64 e (strip_data_uri s)) = Some outBuffer"
  shows "post_upload f e (Some json) w =
     (Json_hash (sha256_hex outBuffer),
      Bun_write (imagesDir e @ ''/'' @ sha256_hex outBuffer @ ''.'' @ extension f) outBuffer w)"
  using post_upload_string [OF assms(1,2), of f e w] assms(3,4)
  by (simp add: Let_def)

text \<open>
  Once the write of an upload has completed, and no earlier write was outstanding, the
  download of the returned hash gives the bytes back.
\<close>

lemma round_trip_after_write:
  assumes "post_upload f e body w = (Json_hash h, w')" "pending w = []"
  shows "\<exists>imageBuffer outBuffer. sharp e f imageBuffer = Some outBuffer \<and>
     get_file f e (h @ ''.'' @ extension f) (write_settles True w') =
       Response outBuffer 200 [(''Content-Type'', content_type f)]"
proof -
  from post_upload_success [OF assms(1)] obtain imageBuffer outBuffer where
    c: "sharp e f imageBuffer = Some outBuffer" and h: "h = sha256_hex outBuffer"
    and w': "w' = Bun_write (imagesDir e @ ''/'' @ h @ ''.'' @ extension f) outBuffer w"
    by blast
  have m: "file_match f (h @ ''.'' @ extension f) = Some h"
    unfolding h by (rule file_match_hex [OF sha256_hex_nonempty is_hex_sha256_hex])
  have "get_file f e (h @ ''.'' @ extension f) (write_settles True w') =
       Response outBuffer 200 [(''Content-Type'', content_type f)]"
    unfolding get_file_valid [OF m] w'
    using assms(2) by (simp add: write_settles_def Bun_write_def)
  with c show ?thesis by blast
qed

text \<open>Two uploads that the sharp pipeline turns into the same bytes are answered alike.\<close>

lemma same_blob_same_hash:
  assumes "destructure_data json1 = Inr (JString s1)" "s1 \<noteq> []"
    and "destructure_data json2 = Inr (JString s2)" "s2 \<noteq> []"
    and "length (from_base64 e (strip_data_uri s1)) \<le> MAX_FILE_SIZE"
    and "length (from_base64 e (strip_data_uri s2)) \<le> MAX_FILE_SIZE"
    and "sharp e f (from_base64 e (strip_data_uri s1)) = Some blob"
    and "sharp e f (from_base64 e (strip_data_uri s2)) = Some blob"
  shows "fst (post_upload f e (Some json1) w1) = Json_hash (sha256_hex blob) \<and>
    fst (post_upload f e (Some json2) w2) = Json_hash (sha256_hex blob)"
  unfolding post_upload_accepts [OF assms(1,2,5,7)] post_upload_accepts [OF assms(3,4,6,8)]
  by simp

section \<open>The write that is not awaited: claims\<close>

text \<open>
  Claim C7 says that of two uploads with the same canonical bytes the second returns the
  same hash and leaves the stored files as the first left them. The hash is the same. The
  files are not: the first upload is answered with the hash whether or not its write
  succeeds, because the write is not awaited, so after a first write that failed the same
  upload again adds the file that the first answer already promised.
\<close>

theorem second_upload_changes_store:
  "(let body = Some (JObject [(''data'', JString ''AAAA'')]);
        blob = [65, 65, 65, 65];
        hash = sha256_hex blob;
        filePath = ''/srv/images/'' @ hash @ ''.avif'';
        (r1, w1) = post_upload Avif example_env body empty_world;
        after_first = write_settles False w1;
        (r2, w2) = post_upload Avif example_env body after_first;
        after_second = write_settles True w2
    in r1 = Json_hash hash \<and> r2 = Json_hash hash \<and>
       pending after_first = [] \<and> pending after_second = [] \<and>
       readFileSync after_first filePath = Inl ENOENT \<and>
       readFileSync after_second filePath = Inr blob \<and>
       files after_second \<noteq> files after_first)"
proof -
  have u: "\<And>w. post_upload Avif example_env (Some (JObject [(''data'', JString ''AAAA'')])) w
     = (Json_hash (sha256_hex [65, 65, 65, 65]),
        Bun_write (imagesDir example_env @ ''/'' @ sha256_hex [65, 65, 65, 65] @ ''.''
                     @ extension Avif) [65, 65, 65, 65] w)"
    by (rule post_upload_accepts [where s = "''AAAA''"])
      (simp_all add: strip_data_uri_first example_env_def MAX_FILE_SIZE_def)
  have d: "f \<noteq> g" if "f x \<noteq> g x" for f g :: "path \<Rightarrow> fs_error + buffer" and x
    using that by auto
  have n: "files (write_settles True (Bun_write
              (''/srv/images/'' @ sha256_hex [65, 65, 65, 65] @ ''.avif'') [65, 65, 65, 65]
              (write_settles False (Bun_write
                (''/srv/images/'' @ sha256_hex [65, 65, 65, 65] @ ''.avif'') [65, 65, 65, 65]
                empty_world))))
      \<noteq> files (write_settles False (Bun_write
            (''/srv/images/'' @ sha256_hex [65, 65, 65, 65] @ ''.avif'') [65, 65, 65, 65]
            empty_world))"
    by (rule d [where x = "''/srv/images/'' @ sha256_hex [65, 65, 65, 65] @ ''.avif''"])
      (simp add: Bun_write_def write_settles_def empty_world_def)
  show ?thesis
    unfolding Let_def u
    using n
    by (simp add: Bun_write_def write_settles_def readFileSync_def
        empty_world_def imagesDir_def example_env_def)
qed

text \<open>
  The same claim fails without any write failing: the second upload is answered while its
  write is outstanding, and once the runtime has opened the file for that write a download
  of the hash is answered with status 200 and no bytes, where after the first upload it
  gave the blob.
\<close>

lemma second_upload_empties_file:
  "(let body = Some (JObject [(''data'', JString ''AAAA'')]);
        blob = [65, 65, 65, 65];
        hash = sha256_hex blob;
        (r1, w1) = post_upload Avif example_env body empty_world;
        after_first = write_settles True w1;
        (r2, w2) = post_upload Avif example_env body after_first;
        during_second = write_starts w2
    in r1 = Json_hash hash \<and> r2 = Json_hash hash \<and>
       get_file Avif example_env (hash @ ''.avif'') after_first
         = Response blob 200 [(''Content-Type'', ''image/avif'')] \<and>
       get_file Avif example_env (hash @ ''.avif'') during_second
         = Response [] 200 [(''Content-Type'', ''image/avif'')] \<and>
       get_file Avif example_env (hash @ ''.avif'') (write_settles True during_second)
         = Response blob 200 [(''Content-Type'', ''image/avif'')])"
proof -
  have u: "\<And>w. post_upload Avif example_env (Some (JObject [(''data'', JString ''AAAA'')])) w
     = (Json_hash (sha256_hex [65, 65, 65, 65]),
        Bun_write (imagesDir example_env @ ''/'' @ sha256_hex [65, 65, 65, 65] @ ''.''
                     @ extension Avif) [65, 65, 65, 65] w)"
    by (rule post_upload_accepts [where s = "''AAAA''"])
      (simp_all add: strip_data_uri_first example_env_def MAX_FILE_SIZE_def)
  have m: "file_match Avif (sha256_hex [65, 65, 65, 65] @ ''.avif'') = Some (sha256_hex [65, 65, 65, 65])"
    using file_match_hex [of "sha256_hex [65, 65, 65, 65]" Avif]
    by (simp add: sha256_hex_nonempty is_hex_sha256_hex)
  show ?thesis
    unfolding Let_def u
    by (simp add: get_file_valid [OF m] Bun_write_def write_settles_def write_starts_def
        empty_world_def imagesDir_def example_env_def)
qed

text \<open>
  Claim C9 says that an upload that fails for any reason is answered with status 400,
  writes nothing, and that the failure stays within the request. The failures inside the
  \<^verbatim>\<open>try\<close> block are answered so (the lemmas above on each of them, and
  \<open>post_upload_failure\<close>). The failure of the write is not: the promise of
  \<^verbatim>\<open>Bun.write\<close> is not awaited, so its rejection never reaches the \<^verbatim>\<open>catch\<close>, for
  any request. In the example the upload has been answered with status 200 and the hash
  when its write fails; the \<^verbatim>\<open>catch\<close> has printed nothing and the file is not there.
\<close>

theorem failed_write_answered_200:
  "console (write_settles False w) = console w \<and>
   (let blob = [65, 65, 65, 65];
        hash = sha256_hex blob;
        filePath = ''/srv/images/'' @ hash @ ''.avif'';
        (r, w') = post_upload Avif example_env
                    (Some (JObject [(''data'', JString ''AAAA'')])) empty_world;
        after_failure = write_settles False w'
    in r = Json_hash hash \<and> status r = 200 \<and> status r \<noteq> 400 \<and>
       pending w' = [(filePath, blob)] \<and>
       console after_failure = [] \<and>
       pending after_failure = [] \<and>
       readFileSync after_failure filePath = Inl ENOENT)"
proof -
  have u: "post_upload Avif example_env (Some (JObject [(''data'', JString ''AAAA'')])) empty_world
     = (Json_hash (sha256_hex [65, 65, 65, 65]),
        Bun_write (imagesDir example_env @ ''/'' @ sha256_hex [65, 65, 65, 65] @ ''.''
                     @ extension Avif) [65, 65, 65, 65] empty_world)"
    by (rule post_upload_accepts [where s = "''AAAA''"])
      (simp_all add: strip_data_uri_first example_env_def MAX_FILE_SIZE_def)
  have c: "console (write_settles False w) = console w"
    by (simp add: write_settles_def split: list.splits)
  show ?thesis
    unfolding Let_def u
    using c
    by (simp add: Bun_write_def write_settles_def readFileSync_def
        empty_world_def imagesDir_def example_env_def)
qed

text \<open>
  Claim C1 says that the write has completed or failed before the answer with the digest is
  produced. The handler calls \<^verbatim>\<open>Bun.write\<close> without \<^verbatim>\<open>await\<close>: for every request the
  files are, when the answer is produced, what they were before the request. In the
  example the answer carries the digest while the write is outstanding and the file is not
  there; when the write fails afterwards the answer has been given all the same.
\<close>

theorem upload_answers_before_write:
  "files (snd (post_upload f e body w)) = files w \<and>
   (let blob = [65, 65, 65, 65];
        hash = sha256_hex blob;
        filePath = ''/srv/images/'' @ hash @ ''.avif'';
        (r, w') = post_upload Avif example_env
                    (Some (JObject [(''data'', JString ''AAAA'')])) empty_world
    in r = Json_hash hash \<and>
       pending w' = [(filePath, blob)] \<and>
       readFileSync w' filePath = Inl ENOENT \<and>
       readFileSync (write_settles False w') filePath = Inl ENOENT \<and>
       readFileSync (write_settles True w') filePath = Inr blob)"
proof -
  have u: "post_upload Avif example_env (Some (JObject [(''data'', JString ''AAAA'')])) empty_world
     = (Json_hash (sha256_hex [65, 65, 65, 65]),
        Bun_write (imagesDir example_env @ ''/'' @ sha256_hex [65, 65, 65, 65] @ ''.''
                     @ extension Avif) [65, 65, 65, 65] empty_world)"
    by (rule post_upload_accepts [where s = "''AAAA''"])
      (simp_all add: strip_data_uri_first example_env_def MAX_FILE_SIZE_def)
  show ?thesis
    unfolding Let_def u
    by (simp add: files_post_upload Bun_write_def write_settles_def readFileSync_def
        empty_world_def imagesDir_def example_env_def)
qed

text \<open>
  Claim C6 says that a download of the returned hash, after a successful upload, gives
  status 200 and the stored bytes. Because the write is not awaited, a download handled
  while the write is outstanding, or after it has failed, is answered 404; the bytes come
  back once the write has completed.
\<close>

theorem download_before_write_not_found:
  "(let blob = [65, 65, 65, 65];
        hash = sha256_hex blob;
        (r, w') = post_upload Avif example_env
                    (Some (JObject [(''data'', JString ''AAAA'')])) empty_world
    in r = Json_hash hash \<and>
       get_file Avif example_env (hash @ ''.avif'') w' = Text ''Image not found'' 404 \<and>
       get_file Avif example_env (hash @ ''.avif'') (write_settles False w')
         = Text ''Image not found'' 404 \<and>
       get_file Avif example_env (hash @ ''.avif'') (write_settles True w')
         = Response blob 200 [(''Content-Type'', ''image/avif'')])"
proof -
  have u: "post_upload Avif example_env (Some (JObject [(''data'', JString ''AAAA'')])) empty_world
     = (Json_hash (sha256_hex [65, 65, 65, 65]),
        Bun_write (imagesDir example_env @ ''/'' @ sha256_hex [65, 65, 65, 65] @ ''.''
                     @ extension Avif) [65, 65, 65, 65] empty_world)"
    by (rule post_upload_accepts [where s = "''AAAA''"])
      (simp_all add: strip_data_uri_first example_env_def MAX_FILE_SIZE_def)
  have m: "file_match Avif (sha256_hex [65, 65, 65, 65] @ ''.avif'') = Some (sha256_hex [65, 65, 65, 65])"
    using file_match_hex [of "sha256_hex [65, 65, 65, 65]" Avif]
    by (simp add: sha256_hex_nonempty is_hex_sha256_hex)
  show ?thesis
    unfolding Let_def u
    by (simp add: get_file_valid [OF m] Bun_write_def write_settles_def
        empty_world_def imagesDir_def example_env_def)
qed

end
